theory Spec2Isabelle
  imports Complex_Main "HOL-Library.AList"
begin

section \<open>Values read from the attempt record\<close>

text \<open>
  \<^verbatim>\<open>process_student_data\<close> receives what \<^verbatim>\<open>json.load\<close> produced: nested
  dictionaries, lists, strings, numbers, booleans and \<^verbatim>\<open>None\<close>. A dictionary is an
  association list (the first binding of a key is the one \<^verbatim>\<open>get\<close> finds). Numbers
  are exact rationals: the binary representation of Python floats is not modelled.
  Strings are byte strings, the UTF-8 of the Python strings: a string of ASCII characters
  is the list of its characters, and any other string has a byte with its top bit set.
\<close>

datatype json =
    JNull
  | JBool bool
  | JNum rat
  | JStr string
  | JArr "json list"
  | JObj "(string \<times> json) list"

text \<open>
  The exceptions that the modelled code can raise. \<open>Unmodelled\<close> is not a Python
  exception: it marks the places where the behaviour of the libraries is outside this
  model, and no theorem below draws a conclusion from it. These places are: a data frame
  whose columns hold a chapter or concept title that is not a string or a time that is
  not a number; the capitalisation of a level, or the matching of a title, that is not a
  string of ASCII characters (Python maps and classifies the other characters by the
  Unicode tables); and the rounding of a number that lies exactly halfway between two
  hundredths (the result then depends on the binary float).
\<close>

datatype py_error = AttributeError | TypeError | KeyError | ZeroDivisionError | Unmodelled

text \<open>Python truthiness (\<^verbatim>\<open>if x\<close>, \<^verbatim>\<open>not x\<close>).\<close>

fun truthy :: "json \<Rightarrow> bool" where
  "truthy JNull = False"
| "truthy (JBool b) = b"
| "truthy (JNum r) = (r \<noteq> 0)"
| "truthy (JStr s) = (s \<noteq> [])"
| "truthy (JArr xs) = (xs \<noteq> [])"
| "truthy (JObj kvs) = (kvs \<noteq> [])"

text \<open>\<^verbatim>\<open>d.get(k, default)\<close>: only a dictionary has the method.\<close>

fun dict_get :: "json \<Rightarrow> string \<Rightarrow> json \<Rightarrow> py_error + json" where
  "dict_get (JObj kvs) k d = Inr (case map_of kvs k of None \<Rightarrow> d | Some v \<Rightarrow> v)"
| "dict_get _ k d = Inl AttributeError"

text \<open>
  \<^verbatim>\<open>for x in v\<close>: a list yields its elements, a string its characters, a dictionary
  its keys; anything else is not iterable.
\<close>

fun py_iter :: "json \<Rightarrow> py_error + json list" where
  "py_iter (JArr xs) = Inr xs"
| "py_iter (JStr s) = Inr (map (\<lambda>c. JStr [c]) s)"
| "py_iter (JObj kvs) = Inr (map (\<lambda>kv. JStr (fst kv)) kvs)"
| "py_iter _ = Inl TypeError"

fun isinstance_list :: "json \<Rightarrow> bool" where
  "isinstance_list (JArr xs) = True"
| "isinstance_list _ = False"

subsection \<open>Strings\<close>

text \<open>A string of ASCII characters: no byte has its top bit set.\<close>

fun is_ascii :: "string \<Rightarrow> bool" where
  "is_ascii [] = True"
| "is_ascii (c # cs) = (\<not> digit7 c \<and> is_ascii cs)"

definition lower_char :: "char \<Rightarrow> char" where
  "lower_char c =
     (case map_of (zip ''ABCDEFGHIJKLMNOPQRSTUVWXYZ'' ''abcdefghijklmnopqrstuvwxyz'') c of
        None \<Rightarrow> c | Some d \<Rightarrow> d)"

definition upper_char :: "char \<Rightarrow> char" where
  "upper_char c =
     (case map_of (zip ''abcdefghijklmnopqrstuvwxyz'' ''ABCDEFGHIJKLMNOPQRSTUVWXYZ'') c of
        None \<Rightarrow> c | Some d \<Rightarrow> d)"

text \<open>
  \<^verbatim>\<open>s.lower()\<close>, which is this function on a string of ASCII characters. On another
  string the bytes above ASCII stay as they are; the result is used only to compare it
  with \<^verbatim>\<open>answered\<close>, and there it agrees with Python for every string: no character
  outside ASCII has a lower case that consists of letters of \<^verbatim>\<open>answered\<close>.
\<close>

definition lower :: "string \<Rightarrow> string" where
  "lower s = map lower_char s"

text \<open>
  \<^verbatim>\<open>s.capitalize()\<close> on a string of ASCII characters: the first character in upper
  case and every other character in lower case.
\<close>

fun capitalize :: "string \<Rightarrow> string" where
  "capitalize [] = []"
| "capitalize (c # cs) = upper_char c # map lower_char cs"

text \<open>
  The two string methods called on a looked-up value: only a string has them. The
  capitalisation of a string with a character outside ASCII is not modelled.
\<close>

fun py_lower :: "json \<Rightarrow> py_error + string" where
  "py_lower (JStr s) = Inr (lower s)"
| "py_lower _ = Inl AttributeError"

fun py_capitalize :: "json \<Rightarrow> py_error + string" where
  "py_capitalize (JStr s) = (if is_ascii s then Inr (capitalize s) else Inl Unmodelled)"
| "py_capitalize _ = Inl AttributeError"

subsection \<open>The three regular expressions\<close>

text \<open>
  The searches are modelled on strings of ASCII characters, the only ones they are applied
  to below. There \<^verbatim>\<open>\w\<close> is a letter, a digit or the underscore; \<^verbatim>\<open>\b\<close> holds at
  index \<open>i\<close> when exactly one of the characters before and after \<open>i\<close> is a word character
  (the ends of the string count as non-word characters).
\<close>

definition is_word_char :: "char \<Rightarrow> bool" where
  "is_word_char c \<longleftrightarrow>
     c \<in> set ''abcdefghijklmnopqrstuvwxyzABCDEFGHIJKLMNOPQRSTUVWXYZ0123456789_''"

definition word_boundary :: "string \<Rightarrow> nat \<Rightarrow> bool" where
  "word_boundary s i \<longleftrightarrow>
     ((0 < i \<and> i \<le> length s \<and> is_word_char (s ! (i - 1))) \<noteq>
      (i < length s \<and> is_word_char (s ! i)))"

text \<open>The literal \<open>w\<close> occurs in \<open>s\<close> at index \<open>i\<close>.\<close>

definition literal_at :: "string \<Rightarrow> string \<Rightarrow> nat \<Rightarrow> bool" where
  "literal_at w s i \<longleftrightarrow> take (length w) (drop i s) = w"

text \<open>\<^verbatim>\<open>re.search(r'\bW\b', s)\<close> for a literal \<open>W\<close>: some start index matches.\<close>

definition search_word :: "string \<Rightarrow> string \<Rightarrow> bool" where
  "search_word w s \<longleftrightarrow>
     list_ex (\<lambda>i. word_boundary s i \<and> literal_at w s i \<and> word_boundary s (i + length w))
       [0..<Suc (length s)]"

text \<open>
  \<^verbatim>\<open>re.search(r'\bmath(s|ematics)?\b', s)\<close>: after \<^verbatim>\<open>math\<close> the optional group takes
  \<^verbatim>\<open>s\<close>, or \<^verbatim>\<open>ematics\<close>, or nothing (the matcher backtracks over the three), and a
  word boundary must follow.
\<close>

definition search_math :: "string \<Rightarrow> bool" where
  "search_math s \<longleftrightarrow>
     list_ex (\<lambda>i. word_boundary s i \<and> literal_at ''math'' s i \<and>
                 ((literal_at ''s'' s (i + 4) \<and> word_boundary s (i + 5)) \<or>
                  (literal_at ''ematics'' s (i + 4) \<and> word_boundary s (i + 11)) \<or>
                  word_boundary s (i + 4)))
       [0..<Suc (length s)]"

section \<open>Subject of a section\<close>

fun extract_subject_from_title :: "json \<Rightarrow> py_error + string" where
  "extract_subject_from_title (JStr section_title) =
     (if section_title = [] then Inr ''Unknown Subject''
      else if \<not> is_ascii section_title then Inl Unmodelled
      else let title_lower = lower section_title in
        Inr (if search_word ''physics'' title_lower then ''Physics''
             else if search_word ''chemistry'' title_lower then ''Chemistry''
             else if search_math title_lower then ''Maths''
             else ''Other Subjects''))"
| "extract_subject_from_title _ = Inr ''Unknown Subject''"

text \<open>
  The reading of ``the title contains the whole word \<open>w\<close>'' that the regular expressions
  are compared with: \<open>w\<close> occurs in the title with no word character directly before it
  and none directly after it.
\<close>

definition contains_whole_word :: "string \<Rightarrow> string \<Rightarrow> bool" where
  "contains_whole_word w s \<longleftrightarrow>
     (\<exists>pre post. s = pre @ w @ post \<and>
        (pre = [] \<or> \<not> is_word_char (last pre)) \<and>
        (post = [] \<or> \<not> is_word_char (hd post)))"

section \<open>Flattening the questions\<close>

text \<open>
  One row of \<^verbatim>\<open>all_questions_list\<close> (the key \<^verbatim>\<open>chapter\<close> is the field
  \<open>primary_chapter\<close>, named after the variable stored under it). The chapter and the concepts are whatever the
  record holds under \<^verbatim>\<open>title\<close>, and the time is whatever it holds under
  \<^verbatim>\<open>timeTaken\<close>, so the row is polymorphic in the type of titles and of times: the
  flattening loop produces rows over \<^typ>\<open>json\<close>, the data frame holds rows over
  strings and numbers.
\<close>

record ('k, 't) question_row =
  subject :: string
  primary_chapter :: 'k
  difficulty :: string
  concepts :: "'k list"
  status :: string
  time_taken_seconds :: 't

text \<open>
  \<^verbatim>\<open>[x.get("title") for x in items if x.get("title")]\<close>, used for the chapters and for
  the concepts of a question.
\<close>

fun collect_titles :: "json list \<Rightarrow> py_error + json list" where
  "collect_titles [] = Inr []"
| "collect_titles (x # xs) =
     (case dict_get x ''title'' JNull of
        Inl e \<Rightarrow> Inl e
      | Inr t \<Rightarrow>
          (case collect_titles xs of
             Inl e \<Rightarrow> Inl e
           | Inr ts \<Rightarrow> Inr (if truthy t then t # ts else ts)))"

definition titles_of :: "json \<Rightarrow> string \<Rightarrow> py_error + json list" where
  "titles_of question_detail key =
     (case dict_get question_detail key (JArr []) of
        Inl e \<Rightarrow> Inl e
      | Inr v \<Rightarrow> (case py_iter v of Inl e \<Rightarrow> Inl e | Inr items \<Rightarrow> collect_titles items))"

text \<open>
  The loop over the marked options: it stops at the first option whose \<^verbatim>\<open>isCorrect\<close>
  is truthy.
\<close>

fun any_option_correct :: "json list \<Rightarrow> py_error + bool" where
  "any_option_correct [] = Inr False"
| "any_option_correct (opt # opts) =
     (case dict_get opt ''isCorrect'' JNull of
        Inl e \<Rightarrow> Inl e
      | Inr v \<Rightarrow> if truthy v then Inr True else any_option_correct opts)"

definition is_marked_correct_by_system :: "json \<Rightarrow> py_error + bool" where
  "is_marked_correct_by_system q_data =
     (case dict_get q_data ''markedOptions'' JNull of
        Inl e \<Rightarrow> Inl e
      | Inr mo \<Rightarrow>
          (case (if truthy mo \<and> isinstance_list mo
                 then (case mo of JArr opts \<Rightarrow> any_option_correct opts | _ \<Rightarrow> Inr False)
                 else Inr False) of
             Inl e \<Rightarrow> Inl e
           | Inr marked \<Rightarrow>
               (case dict_get q_data ''inputValue'' (JObj []) of
                  Inl e \<Rightarrow> Inl e
                | Inr iv \<Rightarrow>
                    (case dict_get iv ''isCorrect'' JNull of
                       Inl e \<Rightarrow> Inl e
                     | Inr c \<Rightarrow> Inr (if truthy c then True else marked)))))"

text \<open>The body of the inner loop: one question of a section whose subject is known.\<close>

definition flatten_question :: "string \<Rightarrow> json \<Rightarrow> py_error + (json, json) question_row" where
  "flatten_question subject_name_for_section q_data =
     (case dict_get q_data ''questionId'' (JObj []) of
        Inl e \<Rightarrow> Inl e
      | Inr question_detail \<Rightarrow>
     (case titles_of question_detail ''chapters'' of
        Inl e \<Rightarrow> Inl e
      | Inr chapters \<Rightarrow>
     (case titles_of question_detail ''concepts'' of
        Inl e \<Rightarrow> Inl e
      | Inr concepts_list \<Rightarrow>
     (case dict_get question_detail ''level'' (JStr ''Unknown Difficulty'') of
        Inl e \<Rightarrow> Inl e
      | Inr level \<Rightarrow>
     (case py_capitalize level of
        Inl e \<Rightarrow> Inl e
      | Inr difficulty_label \<Rightarrow>
     (case is_marked_correct_by_system q_data of
        Inl e \<Rightarrow> Inl e
      | Inr marked \<Rightarrow>
     (case dict_get q_data ''status'' (JStr ''notAnswered'') of
        Inl e \<Rightarrow> Inl e
      | Inr st \<Rightarrow>
     (case py_lower st of
        Inl e \<Rightarrow> Inl e
      | Inr q_status_from_json \<Rightarrow>
     (case dict_get q_data ''timeTaken'' (JNum 0) of
        Inl e \<Rightarrow> Inl e
      | Inr t \<Rightarrow>
          Inr \<lparr> subject = subject_name_for_section,
                primary_chapter = (case chapters of [] \<Rightarrow> JStr ''Unknown Chapter'' | c # _ \<Rightarrow> c),
                difficulty = difficulty_label,
                concepts = concepts_list,
                status = (if q_status_from_json = ''answered''
                          then (if marked then ''Correct'' else ''Incorrect'')
                          else ''Unattempted''),
                time_taken_seconds = t \<rparr>)))))))))"

fun flatten_questions :: "string \<Rightarrow> json list \<Rightarrow> py_error + (json, json) question_row list" where
  "flatten_questions subj [] = Inr []"
| "flatten_questions subj (q # qs) =
     (case flatten_question subj q of
        Inl e \<Rightarrow> Inl e
      | Inr row \<Rightarrow>
          (case flatten_questions subj qs of
             Inl e \<Rightarrow> Inl e
           | Inr rows \<Rightarrow> Inr (row # rows)))"

text \<open>The body of the outer loop: one section.\<close>

definition flatten_section :: "json \<Rightarrow> py_error + (json, json) question_row list" where
  "flatten_section section =
     (case dict_get section ''sectionId'' (JObj []) of
        Inl e \<Rightarrow> Inl e
      | Inr section_id_info \<Rightarrow>
     (case dict_get section_id_info ''title'' (JStr ''Unknown Section'') of
        Inl e \<Rightarrow> Inl e
      | Inr section_title \<Rightarrow>
     (case extract_subject_from_title section_title of
        Inl e \<Rightarrow> Inl e
      | Inr subject_name_for_section \<Rightarrow>
     (case dict_get section ''questions'' (JArr []) of
        Inl e \<Rightarrow> Inl e
      | Inr qs \<Rightarrow>
     (case py_iter qs of
        Inl e \<Rightarrow> Inl e
      | Inr questions \<Rightarrow> flatten_questions subject_name_for_section questions)))))"

fun flatten_sections :: "json list \<Rightarrow> py_error + (json, json) question_row list" where
  "flatten_sections [] = Inr []"
| "flatten_sections (section # sections) =
     (case flatten_section section of
        Inl e \<Rightarrow> Inl e
      | Inr rows \<Rightarrow>
          (case flatten_sections sections of
             Inl e \<Rightarrow> Inl e
           | Inr rest \<Rightarrow> Inr (rows @ rest)))"

section \<open>The data frame\<close>

text \<open>
  \<^verbatim>\<open>pd.DataFrame(all_questions_list)\<close>. The frame is the list of its rows. Its columns
  are the keys of the rows, so a frame built from no rows has no column at all, and
  \<^verbatim>\<open>df["status"]\<close> raises \<^verbatim>\<open>KeyError\<close> on it. The same holds for the frame
  \<^verbatim>\<open>pd.DataFrame()\<close>.
\<close>

fun as_title :: "json \<Rightarrow> string option" where
  "as_title (JStr s) = Some s"
| "as_title _ = None"

fun as_number :: "json \<Rightarrow> rat option" where
  "as_number (JNum r) = Some r"
| "as_number _ = None"

definition frame_row :: "(json, json) question_row \<Rightarrow> (string, rat) question_row option" where
  "frame_row r =
     (case as_title (primary_chapter r) of
        None \<Rightarrow> None
      | Some c \<Rightarrow>
     (case those (map as_title (concepts r)) of
        None \<Rightarrow> None
      | Some cs \<Rightarrow>
     (case as_number (time_taken_seconds r) of
        None \<Rightarrow> None
      | Some t \<Rightarrow>
          Some \<lparr> subject = subject r, primary_chapter = c, difficulty = difficulty r,
                 concepts = cs, status = status r, time_taken_seconds = t \<rparr>)))"

definition data_frame ::
  "(json, json) question_row list \<Rightarrow> py_error + (string, rat) question_row list" where
  "data_frame all_questions_list =
     (case those (map frame_row all_questions_list) of
        None \<Rightarrow> Inl Unmodelled
      | Some questions_df \<Rightarrow> Inr questions_df)"

text \<open>\<^verbatim>\<open>df[name]\<close> for a column \<open>name\<close> of the rows.\<close>

definition column :: "('r \<Rightarrow> 'a) \<Rightarrow> 'r list \<Rightarrow> py_error + 'a list" where
  "column name df = (if df = [] then Inl KeyError else Inr (map name df))"

text \<open>\<^verbatim>\<open>sum(series == label)\<close>\<close>

definition count_status :: "string \<Rightarrow> string list \<Rightarrow> nat" where
  "count_status label series = length (filter (\<lambda>s. s = label) series)"

text \<open>\<^verbatim>\<open>series.mean()\<close>; \<open>None\<close> is the NaN that the mean of an empty series is.\<close>

definition series_mean :: "rat list \<Rightarrow> rat option" where
  "series_mean ts = (if ts = [] then None else Some (sum_list ts / of_nat (length ts)))"

text \<open>
  \<^verbatim>\<open>round(x, 2)\<close>: the hundredth nearest to \<open>x\<close>. When \<open>x\<close> lies exactly halfway
  between two hundredths the code rounds the binary float that stands for \<open>x\<close>, which lies
  on one side or the other; that case is not modelled.
\<close>

definition round2 :: "rat \<Rightarrow> py_error + rat" where
  "round2 x =
     (let y = x * 100; f = \<lfloor>y\<rfloor>; d = y - of_int f in
      if d = 1 / 2 then Inl Unmodelled
      else Inr (of_int (if d < 1 / 2 then f else f + 1) / 100))"

section \<open>The summaries\<close>

record group_summary =
  total_questions :: nat
  correct_answers :: nat
  accuracy_percent :: rat
  average_time_seconds :: rat

record overall =
  score :: json
  overall_accuracy_percent :: rat
  overall_correct_answers :: nat
  incorrect_answers :: nat
  unattempted_answers :: nat
  attempted_answers :: nat
  total_questions_in_test :: nat
  official_total_questions_header :: json
  total_marks_in_test :: json
  total_time_taken_seconds :: json

record time_accuracy =
  avg_time_per_correct_q_seconds :: rat
  avg_time_per_incorrect_q_seconds :: rat

text \<open>
  \<^verbatim>\<open>f"QPT Analysis (Total Marks: {v})"\<close>, with the interpolated value kept as it is
  (its printing is not modelled).
\<close>

datatype test_title = QPT_Analysis_Total_Marks json

text \<open>
  The returned dictionary. The two summaries that are the empty dictionary in the
  degenerate result are \<open>None\<close> there; the grouping dictionaries are maps.
\<close>

record analysis_result =
  student_name :: json
  test_name :: test_title
  overall_summary :: "overall option"
  subject_performance :: "string \<rightharpoonup> group_summary"
  chapter_performance :: "string \<rightharpoonup> group_summary"
  difficulty_performance :: "string \<rightharpoonup> group_summary"
  concept_performance :: "string \<rightharpoonup> group_summary"
  time_accuracy_summary :: "time_accuracy option"
  raw_questions_df :: "(string, rat) question_row list"

subsection \<open>Overall summary\<close>

definition overall_summary_of ::
  "json \<Rightarrow> json \<Rightarrow> (string, rat) question_row list \<Rightarrow> py_error + overall" where
  "overall_summary_of data test_info questions_df =
     (case column status questions_df of
        Inl e \<Rightarrow> Inl e
      | Inr status_col \<Rightarrow>
     (let total_questions_in_df = length questions_df;
          total_correct_in_df = count_status ''Correct'' status_col;
          total_incorrect_in_df = count_status ''Incorrect'' status_col;
          total_unattempted_in_df = count_status ''Unattempted'' status_col;
          total_attempted_in_df = total_correct_in_df + total_incorrect_in_df;
          overall_accuracy_calculated =
            (if total_questions_in_df > 0
             then of_nat total_correct_in_df / of_nat total_questions_in_df * 100 else 0)
      in
     (case dict_get test_info ''totalQuestions'' (JNum (of_nat total_questions_in_df)) of
        Inl e \<Rightarrow> Inl e
      | Inr official_total_questions \<Rightarrow>
     (case dict_get data ''totalMarkScored'' JNull of
        Inl e \<Rightarrow> Inl e
      | Inr total_mark_scored \<Rightarrow>
     (case round2 overall_accuracy_calculated of
        Inl e \<Rightarrow> Inl e
      | Inr accuracy \<Rightarrow>
     (case dict_get test_info ''totalMarks'' JNull of
        Inl e \<Rightarrow> Inl e
      | Inr total_marks \<Rightarrow>
     (case dict_get data ''totalTimeTaken'' JNull of
        Inl e \<Rightarrow> Inl e
      | Inr total_time_taken \<Rightarrow>
          Inr \<lparr> score = total_mark_scored,
                overall_accuracy_percent = accuracy,
                overall_correct_answers = total_correct_in_df,
                incorrect_answers = total_incorrect_in_df,
                unattempted_answers = total_unattempted_in_df,
                attempted_answers = total_attempted_in_df,
                total_questions_in_test = total_questions_in_df,
                official_total_questions_header = official_total_questions,
                total_marks_in_test = total_marks,
                total_time_taken_seconds = total_time_taken \<rparr>)))))))"

subsection \<open>Subjects\<close>

definition EXPECTED_QUESTIONS_PER_SUBJECT :: "(string \<times> nat) list" where
  "EXPECTED_QUESTIONS_PER_SUBJECT = [(''Physics'', 25), (''Chemistry'', 25), (''Maths'', 25)]"

text \<open>
  The body of the loop over the three subjects. \<open>group_df\<close> is the group of the subject,
  or \<^verbatim>\<open>pd.DataFrame()\<close> when no row has the subject; the first thing read from it is
  its \<^verbatim>\<open>status\<close> column.
\<close>

definition subject_entry ::
  "(string, rat) question_row list \<Rightarrow> string \<Rightarrow> py_error + group_summary" where
  "subject_entry questions_df subject_name =
     (let group_df = filter (\<lambda>r. subject r = subject_name) questions_df;
          total_expected =
            (case map_of EXPECTED_QUESTIONS_PER_SUBJECT subject_name of
               None \<Rightarrow> length group_df | Some n \<Rightarrow> n)
      in
     (case column status group_df of
        Inl e \<Rightarrow> Inl e
      | Inr status_col \<Rightarrow>
     (let count_correct = count_status ''Correct'' status_col;
          avg_time =
            (if group_df \<noteq> [] then the (series_mean (map time_taken_seconds group_df)) else 0)
      in
     (case round2 (if total_expected \<noteq> 0
                   then of_nat count_correct / of_nat total_expected * 100 else 0) of
        Inl e \<Rightarrow> Inl e
      | Inr accuracy \<Rightarrow>
     (case round2 avg_time of
        Inl e \<Rightarrow> Inl e
      | Inr average \<Rightarrow>
          Inr \<lparr> total_questions = total_expected,
                correct_answers = count_correct,
                accuracy_percent = accuracy,
                average_time_seconds = average \<rparr>)))))"

fun subject_loop ::
  "(string, rat) question_row list \<Rightarrow> string list \<Rightarrow> (string \<rightharpoonup> group_summary) \<Rightarrow>
   py_error + (string \<rightharpoonup> group_summary)" where
  "subject_loop questions_df [] acc = Inr acc"
| "subject_loop questions_df (s # ss) acc =
     (case subject_entry questions_df s of
        Inl e \<Rightarrow> Inl e
      | Inr g \<Rightarrow> subject_loop questions_df ss (acc(s \<mapsto> g)))"

definition subject_performance_of ::
  "(string, rat) question_row list \<Rightarrow> py_error + (string \<rightharpoonup> group_summary)" where
  "subject_performance_of questions_df =
     (if questions_df \<noteq> []
      then subject_loop questions_df [''Physics'', ''Chemistry'', ''Maths''] Map.empty
      else Inr Map.empty)"

subsection \<open>Chapters and difficulties\<close>

text \<open>The summary of one group of \<^verbatim>\<open>groupby\<close>.\<close>

definition group_stats :: "(string, rat) question_row list \<Rightarrow> py_error + group_summary" where
  "group_stats group_df =
     (let count_total = length group_df;
          count_correct = count_status ''Correct'' (map status group_df);
          accuracy =
            (if count_total > 0 then of_nat count_correct / of_nat count_total * 100 else 0);
          avg_time =
            (if count_total > 0 then the (series_mean (map time_taken_seconds group_df)) else 0)
      in
     (case round2 accuracy of
        Inl e \<Rightarrow> Inl e
      | Inr accuracy_rounded \<Rightarrow>
     (case round2 avg_time of
        Inl e \<Rightarrow> Inl e
      | Inr average \<Rightarrow>
          Inr \<lparr> total_questions = count_total, correct_answers = count_correct,
                accuracy_percent = accuracy_rounded, average_time_seconds = average \<rparr>)))"

text \<open>
  The loop over the groups of \<^verbatim>\<open>questions_df.groupby(key)\<close>, given the keys of the
  groups; the group of the sentinel key is skipped. The two loops of the source differ in
  the key and the sentinel only.
\<close>

fun group_loop ::
  "((string, rat) question_row \<Rightarrow> string) \<Rightarrow> string \<Rightarrow> (string, rat) question_row list \<Rightarrow>
   string list \<Rightarrow> (string \<rightharpoonup> group_summary) \<Rightarrow> py_error + (string \<rightharpoonup> group_summary)" where
  "group_loop key sentinel questions_df [] acc = Inr acc"
| "group_loop key sentinel questions_df (k # ks) acc =
     (if k = sentinel then group_loop key sentinel questions_df ks acc
      else
        (case group_stats (filter (\<lambda>r. key r = k) questions_df) of
           Inl e \<Rightarrow> Inl e
         | Inr g \<Rightarrow> group_loop key sentinel questions_df ks (acc(k \<mapsto> g))))"

text \<open>
  The keys of the groups are the distinct values of the column (pandas yields them
  sorted; the order does not show in the dictionary that the loop fills).
\<close>

definition chapter_performance_of ::
  "(string, rat) question_row list \<Rightarrow> py_error + (string \<rightharpoonup> group_summary)" where
  "chapter_performance_of questions_df =
     (if questions_df \<noteq> []
      then group_loop primary_chapter ''Unknown Chapter'' questions_df
             (remdups (map primary_chapter questions_df)) Map.empty
      else Inr Map.empty)"

definition difficulty_performance_of ::
  "(string, rat) question_row list \<Rightarrow> py_error + (string \<rightharpoonup> group_summary)" where
  "difficulty_performance_of questions_df =
     (if questions_df \<noteq> []
      then group_loop difficulty ''Unknown Difficulty'' questions_df
             (remdups (map difficulty questions_df)) Map.empty
      else Inr Map.empty)"

subsection \<open>Concepts\<close>

record concept_agg =
  correct :: nat
  total :: nat
  time_taken_list :: "rat list"

text \<open>
  \<^verbatim>\<open>concept_performance_agg\<close> is a \<^verbatim>\<open>defaultdict\<close>: reading a missing key gives the
  zero entry. It is an association list in insertion order.
\<close>

definition agg_get :: "(string \<times> concept_agg) list \<Rightarrow> string \<Rightarrow> concept_agg" where
  "agg_get agg concept =
     (case map_of agg concept of
        None \<Rightarrow> \<lparr> correct = 0, total = 0, time_taken_list = [] \<rparr>
      | Some v \<Rightarrow> v)"

text \<open>The loop over the concepts of one row.\<close>

fun concept_loop ::
  "string \<Rightarrow> rat \<Rightarrow> string list \<Rightarrow> (string \<times> concept_agg) list \<Rightarrow>
   (string \<times> concept_agg) list" where
  "concept_loop row_status row_time [] agg = agg"
| "concept_loop row_status row_time (concept # rest) agg =
     (if concept = [] then concept_loop row_status row_time rest agg
      else
        let v = agg_get agg concept;
            v1 = v\<lparr> total := total v + 1 \<rparr>;
            v2 = (if row_status = ''Correct'' then v1\<lparr> correct := correct v1 + 1 \<rparr> else v1);
            v3 = v2\<lparr> time_taken_list := time_taken_list v2 @ [row_time] \<rparr>
        in concept_loop row_status row_time rest (AList.update concept v3 agg))"

text \<open>The loop over the rows (\<^verbatim>\<open>iterrows\<close>).\<close>

fun iterrows_loop ::
  "(string, rat) question_row list \<Rightarrow> (string \<times> concept_agg) list \<Rightarrow>
   (string \<times> concept_agg) list" where
  "iterrows_loop [] agg = agg"
| "iterrows_loop (row_series # rows) agg =
     iterrows_loop rows
       (concept_loop (status row_series) (time_taken_seconds row_series)
          (concepts row_series) agg)"

text \<open>
  The body of the loop over the items of the aggregate: the summary of one entry. The
  average divides by the length of the list of times.
\<close>

definition concept_summary :: "concept_agg \<Rightarrow> py_error + group_summary" where
  "concept_summary v =
     (if time_taken_list v = [] then Inl ZeroDivisionError
      else
        let avg_time = sum_list (time_taken_list v) / of_nat (length (time_taken_list v)) in
     (case round2 (if total v \<noteq> 0
                   then of_nat (correct v) / of_nat (total v) * 100 else 0) of
        Inl e \<Rightarrow> Inl e
      | Inr accuracy \<Rightarrow>
     (case round2 avg_time of
        Inl e \<Rightarrow> Inl e
      | Inr average \<Rightarrow>
          Inr \<lparr> total_questions = total v, correct_answers = correct v,
                accuracy_percent = accuracy, average_time_seconds = average \<rparr>)))"

fun concept_items_loop ::
  "(string \<times> concept_agg) list \<Rightarrow> py_error + (string \<times> group_summary) list" where
  "concept_items_loop [] = Inr []"
| "concept_items_loop ((concept, v) # items) =
     (case concept_summary v of
        Inl e \<Rightarrow> Inl e
      | Inr g \<Rightarrow>
          (case concept_items_loop items of
             Inl e \<Rightarrow> Inl e
           | Inr out \<Rightarrow> Inr ((concept, g) # out)))"

definition concept_performance_of ::
  "(string, rat) question_row list \<Rightarrow> py_error + (string \<rightharpoonup> group_summary)" where
  "concept_performance_of questions_df =
     (if questions_df \<noteq> []
      then (case concept_items_loop (iterrows_loop questions_df []) of
              Inl e \<Rightarrow> Inl e
            | Inr out \<Rightarrow> Inr (map_of out))
      else Inr Map.empty)"

subsection \<open>Time against accuracy\<close>

text \<open>\<^verbatim>\<open>round(m, 2) if pd.notna(m) else 0\<close>\<close>

definition rounded_or_zero :: "rat option \<Rightarrow> py_error + rat" where
  "rounded_or_zero m = (case m of None \<Rightarrow> Inr 0 | Some x \<Rightarrow> round2 x)"

definition time_accuracy_summary_of ::
  "(string, rat) question_row list \<Rightarrow> py_error + time_accuracy option" where
  "time_accuracy_summary_of questions_df =
     (if questions_df \<noteq> []
      then
        let avg_time_correct_q =
              series_mean (map time_taken_seconds
                             (filter (\<lambda>r. status r = ''Correct'') questions_df));
            avg_time_incorrect_q =
              series_mean (map time_taken_seconds
                             (filter (\<lambda>r. status r = ''Incorrect'') questions_df))
        in
     (case rounded_or_zero avg_time_correct_q of
        Inl e \<Rightarrow> Inl e
      | Inr correct_average \<Rightarrow>
     (case rounded_or_zero avg_time_incorrect_q of
        Inl e \<Rightarrow> Inl e
      | Inr incorrect_average \<Rightarrow>
          Inr (Some \<lparr> avg_time_per_correct_q_seconds = correct_average,
                      avg_time_per_incorrect_q_seconds = incorrect_average \<rparr>)))
      else Inr None)"

section \<open>The engine\<close>

text \<open>\<^verbatim>\<open>d[k]\<close> and \<^verbatim>\<open>k in d\<close> on a dictionary.\<close>

fun dict_lookup :: "json \<Rightarrow> string \<Rightarrow> json option" where
  "dict_lookup (JObj kvs) k = map_of kvs k"
| "dict_lookup _ k = None"

text \<open>Everything after the flattening loop.\<close>

definition analyze_questions ::
  "json \<Rightarrow> json \<Rightarrow> json \<Rightarrow> test_title \<Rightarrow> (json, json) question_row list \<Rightarrow>
   py_error + analysis_result" where
  "analyze_questions data test_info student title all_questions_list =
     (case data_frame all_questions_list of
        Inl e \<Rightarrow> Inl e
      | Inr questions_df \<Rightarrow>
     (case overall_summary_of data test_info questions_df of
        Inl e \<Rightarrow> Inl e
      | Inr summary \<Rightarrow>
     (case subject_performance_of questions_df of
        Inl e \<Rightarrow> Inl e
      | Inr by_subject \<Rightarrow>
     (case chapter_performance_of questions_df of
        Inl e \<Rightarrow> Inl e
      | Inr by_chapter \<Rightarrow>
     (case difficulty_performance_of questions_df of
        Inl e \<Rightarrow> Inl e
      | Inr by_difficulty \<Rightarrow>
     (case concept_performance_of questions_df of
        Inl e \<Rightarrow> Inl e
      | Inr by_concept \<Rightarrow>
     (case time_accuracy_summary_of questions_df of
        Inl e \<Rightarrow> Inl e
      | Inr time_accuracy \<Rightarrow>
          Inr \<lparr> student_name = student,
                test_name = title,
                overall_summary = Some summary,
                subject_performance = by_subject,
                chapter_performance = by_chapter,
                difficulty_performance = by_difficulty,
                concept_performance = by_concept,
                time_accuracy_summary = time_accuracy,
                raw_questions_df = questions_df \<rparr>)))))))"

text \<open>
  The result is \<open>Inl\<close> of the exception raised, \<open>Inr None\<close> when the function returns
  \<^verbatim>\<open>None\<close>, and \<open>Inr (Some r)\<close> when it returns the dictionary \<open>r\<close>.
\<close>

definition process_student_data :: "json \<Rightarrow> py_error + analysis_result option" where
  "process_student_data data =
     (if \<not> truthy data then Inr None
      else
     (case dict_get data ''test'' (JObj []) of
        Inl e \<Rightarrow> Inl e
      | Inr test_info \<Rightarrow>
     (case dict_get test_info ''totalMarks'' (JStr ''N/A'') of
        Inl e \<Rightarrow> Inl e
      | Inr marks \<Rightarrow>
     (case dict_get data ''student_name'' (JStr ''Valued Student'') of
        Inl e \<Rightarrow> Inl e
      | Inr student \<Rightarrow>
     (case dict_lookup data ''sections'' of
        Some (JArr sections) \<Rightarrow>
          (case flatten_sections sections of
             Inl e \<Rightarrow> Inl e
           | Inr all_questions_list \<Rightarrow>
               (case analyze_questions data test_info student
                       (QPT_Analysis_Total_Marks marks) all_questions_list of
                  Inl e \<Rightarrow> Inl e
                | Inr r \<Rightarrow> Inr (Some r)))
      | _ \<Rightarrow>
          Inr (Some \<lparr> student_name = student,
                      test_name = QPT_Analysis_Total_Marks marks,
                      overall_summary = None,
                      subject_performance = Map.empty,
                      chapter_performance = Map.empty,
                      difficulty_performance = Map.empty,
                      concept_performance = Map.empty,
                      time_accuracy_summary = None,
                      raw_questions_df = [] \<rparr>))))))"

section \<open>What the record says about a question\<close>

text \<open>
  The two facts about a question attempt that its status is stated in terms of, read off
  the record and not off the flattening loop: the \<^verbatim>\<open>status\<close> field, in lower case, is
  \<^verbatim>\<open>answered\<close>; and some marked option, or the input value, carries a truthy
  \<^verbatim>\<open>isCorrect\<close> (for a boolean flag: it is \<^verbatim>\<open>true\<close>).
\<close>

definition source_status_answered :: "json \<Rightarrow> bool" where
  "source_status_answered q_data \<longleftrightarrow>
     (\<exists>s. dict_lookup q_data ''status'' = Some (JStr s) \<and> lower s = ''answered'')"

definition flagged_correct :: "json \<Rightarrow> bool" where
  "flagged_correct q_data \<longleftrightarrow>
     (\<exists>opts opt v. dict_lookup q_data ''markedOptions'' = Some (JArr opts) \<and> opt \<in> set opts \<and>
        dict_lookup opt ''isCorrect'' = Some v \<and> truthy v) \<or>
     (\<exists>iv v. dict_lookup q_data ''inputValue'' = Some iv \<and>
        dict_lookup iv ''isCorrect'' = Some v \<and> truthy v)"

section \<open>Groups of a concept, plain means, and the questions of a record\<close>







section \<open>Sample records\<close>

text \<open>
  The question of the first scenario of the specification, and the record around it: one
  section titled \<^verbatim>\<open>Physics Test\<close> holding that question.
\<close>

definition scenario_question :: json where
  "scenario_question =
     JObj [(''questionId'',
              JObj [(''chapters'', JArr [JObj [(''title'', JStr ''Kinematics'')]]),
                    (''level'', JStr ''easy'')]),
           (''status'', JStr ''answered''),
           (''markedOptions'', JArr [JObj [(''isCorrect'', JBool True)]]),
           (''timeTaken'', JNum 30)]"

definition scenario_record :: json where
  "scenario_record =
     JObj [(''student_name'', JStr ''A''),
           (''sections'',
              JArr [JObj [(''sectionId'', JObj [(''title'', JStr ''Physics Test'')]),
                          (''questions'', JArr [scenario_question])]])]"

text \<open>A question answered correctly whose status is written in capitals.\<close>

definition capitals_question :: json where
  "capitals_question =
     JObj [(''status'', JStr ''ANSWERED''),
           (''markedOptions'', JArr [JObj [(''isCorrect'', JBool True)]])]"

text \<open>A question whose level is written in capitals.\<close>

definition medium_question :: json where
  "medium_question =
     JObj [(''questionId'', JObj [(''level'', JStr ''MEDIUM'')]),
           (''status'', JStr ''notAnswered'')]"

text \<open>The frame of the scenario: its one row.\<close>

definition scenario_frame :: "(string, rat) question_row list" where
  "scenario_frame =
     [\<lparr> subject = ''Physics'', primary_chapter = ''Kinematics'', difficulty = ''Easy'',
        concepts = [], status = ''Correct'', time_taken_seconds = 30 \<rparr>]"

text \<open>A question answered wrongly that has neither a question detail nor a time.\<close>

definition untimed_question :: json where
  "untimed_question =
     JObj [(''status'', JStr ''answered''),
           (''markedOptions'', JArr [JObj [(''isCorrect'', JBool False)]])]"

text \<open>
  A Physics question with five concept entries: the third has an empty title and the
  fourth has none.
\<close>

definition vectors_question :: json where
  "vectors_question =
     JObj [(''questionId'',
              JObj [(''chapters'', JArr [JObj [(''title'', JStr ''Kinematics'')]]),
                    (''concepts'', JArr [JObj [(''title'', JStr ''Vectors'')],
                                         JObj [(''title'', JStr ''Motion'')],
                                         JObj [(''title'', JStr '''')],
                                         JObj [],
                                         JObj [(''title'', JStr ''Forces'')]]),
                    (''level'', JStr ''easy'')]),
           (''status'', JStr ''answered''),
           (''markedOptions'', JArr [JObj [(''isCorrect'', JBool True)]]),
           (''timeTaken'', JNum 1)]"

text \<open>
  A record with the three subjects. Its Physics question is the one above; the Chemistry
  question has no level; the second Maths question is the one without a time.
\<close>

definition three_subject_sections :: "json list" where
  "three_subject_sections =
     [JObj [(''sectionId'', JObj [(''title'', JStr ''Physics Test'')]),
            (''questions'', JArr [vectors_question])],
      JObj [(''sectionId'', JObj [(''title'', JStr ''Chemistry'')]),
            (''questions'',
               JArr [JObj [(''questionId'',
                              JObj [(''chapters'', JArr [JObj [(''title'', JStr ''Bonding'')]]),
                                    (''concepts'', JArr [JObj [(''title'', JStr ''Motion'')],
                                                         JObj [(''title'', JStr ''Bonds'')]])]),
                           (''status'', JStr ''answered''),
                           (''inputValue'', JObj [(''isCorrect'', JBool True)]),
                           (''timeTaken'', JNum 1)]])],
      JObj [(''sectionId'', JObj [(''title'', JStr ''Maths Section'')]),
            (''questions'',
               JArr [JObj [(''questionId'',
                              JObj [(''chapters'', JArr [JObj [(''title'', JStr ''Algebra'')]]),
                                    (''level'', JStr ''hard'')]),
                           (''status'', JStr ''answered''),
                           (''markedOptions'', JArr [JObj [(''isCorrect'', JBool True)]]),
                           (''timeTaken'', JNum 2)],
                     untimed_question])]]"

definition three_subject_record :: json where
  "three_subject_record =
     JObj [(''student_name'', JStr ''A''),
           (''test'', JObj [(''totalMarks'', JNum 300)]),
           (''sections'', JArr three_subject_sections)]"




text \<open>A section without a title that holds the question of the scenario.\<close>

definition untitled_section :: json where
  "untitled_section =
     JObj [(''sectionId'', JObj []), (''questions'', JArr [scenario_question])]"


text \<open>A record with an empty list of sections.\<close>

definition empty_sections_record :: json where
  "empty_sections_record = JObj [(''student_name'', JStr ''A''), (''sections'', JArr [])]"

text \<open>A record whose only section has no \<^verbatim>\<open>questions\<close> field.\<close>

definition no_questions_record :: json where
  "no_questions_record =
     JObj [(''student_name'', JStr ''A''),
           (''sections'', JArr [JObj [(''sectionId'', JObj [(''title'', JStr ''Physics Test'')])]])]"

section \<open>The regular expressions find whole words\<close>

lemma literal_at_split:
  assumes "literal_at w s i" "i \<le> length s"
  shows "s = take i s @ w @ drop (i + length w) s"
proof -
  have "drop i s = take (length w) (drop i s) @ drop (length w) (drop i s)"
    by (rule append_take_drop_id[symmetric])
  then have "drop i s = w @ drop (i + length w) s"
    using assms by (simp add: literal_at_def add.commute)
  then show ?thesis
    by (metis append_take_drop_id)
qed

lemma literal_at_append: "literal_at w (pre @ w @ post) (length pre)"
  by (simp add: literal_at_def)

lemma literal_at_length:
  assumes "literal_at w s i"
  shows "i + length w \<le> length s \<or> w = []"
proof -
  from assms have "length (take (length w) (drop i s)) = length w"
    by (simp add: literal_at_def)
  then show ?thesis by (cases w) (auto simp: min_def split: if_splits)
qed

lemma literal_at_concat:
  "literal_at (u @ v) s i \<longleftrightarrow> literal_at u s i \<and> literal_at v s (i + length u)"
proof
  assume h: "literal_at (u @ v) s i"
  then have e: "take (length u + length v) (drop i s) = u @ v"
    by (simp add: literal_at_def)
  then have "take (length u) (take (length u + length v) (drop i s)) = u"
    by simp
  then have a: "take (length u) (drop i s) = u" by (simp add: min_def)
  from e have "drop (length u) (take (length u + length v) (drop i s)) = v"
    by simp
  then have b: "take (length v) (drop (i + length u) s) = v"
    by (simp add: drop_take add.commute)
  from a b show "literal_at u s i \<and> literal_at v s (i + length u)"
    by (simp add: literal_at_def)
next
  assume h: "literal_at u s i \<and> literal_at v s (i + length u)"
  then have a: "take (length u) (drop i s) = u"
    and b: "take (length v) (drop (length u) (drop i s)) = v"
    by (simp_all add: literal_at_def add.commute)
  have "take (length u + length v) (drop i s) =
        take (length u) (drop i s) @ take (length v) (drop (length u) (drop i s))"
    by (simp add: take_add)
  with a b show "literal_at (u @ v) s i" by (simp add: literal_at_def)
qed

lemma nth_mid_hd: "w \<noteq> [] \<Longrightarrow> (pre @ w @ post) ! length pre = hd w"
  by (cases w) simp_all

lemma nth_mid_last:
  assumes "w \<noteq> []"
  shows "(pre @ w @ post) ! (length pre + length w - 1) = last w"
proof -
  have "length pre + length w - 1 = length pre + (length w - 1)"
    using assms by (cases w) simp_all
  then have "(pre @ w @ post) ! (length pre + length w - 1) = (w @ post) ! (length w - 1)"
    by (simp only: nth_append_length_plus)
  also have "\<dots> = w ! (length w - 1)"
    using assms by (simp add: nth_append)
  also have "\<dots> = last w"
    using assms by (simp add: last_conv_nth)
  finally show ?thesis .
qed

lemma search_word_imp_whole:
  assumes w: "w \<noteq> []" "\<forall>c\<in>set w. is_word_char c"
    and s: "search_word w s"
  shows "contains_whole_word w s"
proof -
  from s have "\<exists>i\<in>set [0..<Suc (length s)]. word_boundary s i \<and> literal_at w s i \<and>
      word_boundary s (i + length w)"
    unfolding search_word_def list_ex_iff .
  then obtain i where mem: "i \<in> set [0..<Suc (length s)]"
    and i: "word_boundary s i" "word_boundary s i" "literal_at w s i"
      "word_boundary s (i + length w)"
    by blast
  from mem have ile: "i \<le> length s" by auto
  let ?pre = "take i s" and ?post = "drop (i + length w) s"
  have split: "s = ?pre @ w @ ?post" using i ile literal_at_split by simp
  from literal_at_length[OF i(3)] w have len: "i + length w \<le> length s" by simp
  have lp: "length ?pre = i" using ile by simp
  have "(?pre @ w @ ?post) ! length ?pre = hd w"
    using w(1) by (rule nth_mid_hd)
  with split lp have si: "s ! i = hd w" by simp
  have hdw: "is_word_char (hd w)" using w by simp
  have lastw: "is_word_char (last w)" using w by simp
  have "i < length s" using len w by (cases w) auto
  with i(2) si hdw have nb: "\<not> (0 < i \<and> is_word_char (s ! (i - 1)))"
    by (auto simp: word_boundary_def)
  have pre: "?pre = [] \<or> \<not> is_word_char (last ?pre)"
  proof (cases "i = 0")
    case True then show ?thesis by simp
  next
    case False
    then have "?pre \<noteq> []" using \<open>i < length s\<close> by auto
    then have "last ?pre = ?pre ! (length ?pre - 1)" by (rule last_conv_nth)
    then have "last ?pre = s ! (i - 1)" using lp False by simp
    with nb False show ?thesis by simp
  qed
  have "(?pre @ w @ ?post) ! (length ?pre + length w - 1) = last w"
    using w(1) by (rule nth_mid_last)
  with split lp have sj: "s ! (i + length w - 1) = last w" by simp
  have "0 < i + length w" using w(1) by simp
  with len sj lastw
  have "0 < i + length w \<and> i + length w \<le> length s \<and> is_word_char (s ! (i + length w - 1))"
    by simp
  with i(4) have ne: "\<not> (i + length w < length s \<and> is_word_char (s ! (i + length w)))"
    unfolding word_boundary_def by blast
  have post: "?post = [] \<or> \<not> is_word_char (hd ?post)"
  proof (cases "i + length w < length s")
    case True
    then have "hd ?post = s ! (i + length w)" by (simp add: hd_drop_conv_nth)
    with ne True show ?thesis by simp
  next
    case False then show ?thesis by simp
  qed
  from split pre post show ?thesis
    unfolding contains_whole_word_def by blast
qed

lemma whole_imp_search_word:
  assumes w: "w \<noteq> []" "\<forall>c\<in>set w. is_word_char c"
    and c: "contains_whole_word w s"
  shows "search_word w s"
proof -
  from c obtain pre post where s: "s = pre @ w @ post"
    and pre: "pre = [] \<or> \<not> is_word_char (last pre)"
    and post: "post = [] \<or> \<not> is_word_char (hd post)"
    unfolding contains_whole_word_def by blast
  let ?i = "length pre"
  have hdw: "is_word_char (hd w)" and lastw: "is_word_char (last w)" using w by simp_all
  have i: "?i < length s" using s w by (cases w) auto
  have si: "s ! ?i = hd w" unfolding s using w(1) by (rule nth_mid_hd)
  have b1: "word_boundary s ?i"
  proof -
    have "\<not> (0 < ?i \<and> ?i \<le> length s \<and> is_word_char (s ! (?i - 1)))"
    proof (cases "pre = []")
      case True then show ?thesis by simp
    next
      case False
      then have "s ! (?i - 1) = last pre" using s by (simp add: nth_append last_conv_nth)
      with pre False show ?thesis by simp
    qed
    with i si hdw show ?thesis by (simp add: word_boundary_def)
  qed
  have sj: "s ! (?i + length w - 1) = last w"
    unfolding s using w(1) by (rule nth_mid_last)
  have b2: "word_boundary s (?i + length w)"
  proof -
    have "\<not> (?i + length w < length s \<and> is_word_char (s ! (?i + length w)))"
    proof (cases "post = []")
      case True then show ?thesis using s by simp
    next
      case False
      then have "s ! (?i + length w) = hd post"
        using s by (simp add: nth_append hd_conv_nth)
      with post False show ?thesis by simp
    qed
    moreover have "0 < ?i + length w" "?i + length w \<le> length s" using w s by auto
    ultimately show ?thesis using sj lastw by (auto simp: word_boundary_def)
  qed
  have "literal_at w s ?i" using s literal_at_append by simp
  with b1 b2 i show ?thesis
    by (auto simp: search_word_def list_ex_iff intro!: bexI[of _ "?i"])
qed

lemma search_word_iff:
  "w \<noteq> [] \<Longrightarrow> \<forall>c\<in>set w. is_word_char c \<Longrightarrow> search_word w s \<longleftrightarrow> contains_whole_word w s"
  using search_word_imp_whole whole_imp_search_word by blast

lemma search_math_iff_words:
  "search_math s \<longleftrightarrow>
     search_word ''math'' s \<or> search_word ''maths'' s \<or> search_word ''mathematics'' s"
proof -
  have a: "literal_at ''maths'' s i \<longleftrightarrow> literal_at ''math'' s i \<and> literal_at ''s'' s (i + 4)" for i
    using literal_at_concat[of "''math''" "''s''" s i] by (simp add: eval_nat_numeral)
  have b: "literal_at ''mathematics'' s i \<longleftrightarrow>
           literal_at ''math'' s i \<and> literal_at ''ematics'' s (i + 4)" for i
    using literal_at_concat[of "''math''" "''ematics''" s i] by (simp add: eval_nat_numeral)
  have c: "length ''math'' = 4" "length ''maths'' = 5" "length ''mathematics'' = 11"
    by simp_all
  show ?thesis
    unfolding search_math_def search_word_def list_ex_iff a b c
    by blast
qed

lemma word_chars_physics: "\<forall>c\<in>set ''physics''. is_word_char c"
  by (simp add: is_word_char_def)
lemma word_chars_chemistry: "\<forall>c\<in>set ''chemistry''. is_word_char c"
  by (simp add: is_word_char_def)
lemma word_chars_mathematics: "\<forall>c\<in>set ''mathematics''. is_word_char c"
  by (simp add: is_word_char_def)
lemma word_chars_maths: "\<forall>c\<in>set ''maths''. is_word_char c"
  by (simp add: is_word_char_def)
lemma word_chars_math: "\<forall>c\<in>set ''math''. is_word_char c"
  by (simp add: is_word_char_def)

lemma search_math_iff:
  "search_math s \<longleftrightarrow>
     contains_whole_word ''math'' s \<or> contains_whole_word ''maths'' s \<or>
     contains_whole_word ''mathematics'' s"
  unfolding search_math_iff_words
  using search_word_iff[OF _ word_chars_math, of s]
        search_word_iff[OF _ word_chars_maths, of s]
        search_word_iff[OF _ word_chars_mathematics, of s]
  by simp

text \<open>Taking a chain of steps that can fail apart, one step at a time.\<close>

lemma bindE:
  assumes "(case x of Inl e \<Rightarrow> Inl e | Inr v \<Rightarrow> f v) = Inr r"
  obtains v where "x = Inr v" "f v = Inr r"
  using assms by (cases x) auto

lemma flatten_question_subject:
  assumes "flatten_question subj q = Inr row"
  shows "subject row = subj"
  using assms unfolding flatten_question_def
  by (elim bindE) auto

lemma flatten_questions_subject:
  "flatten_questions subj qs = Inr rows \<Longrightarrow> row \<in> set rows \<Longrightarrow> subject row = subj"
proof (induction qs arbitrary: rows)
  case Nil
  then show ?case by simp
next
  case (Cons q qs)
  from Cons.prems(1) obtain r rest where r: "flatten_question subj q = Inr r"
    and rest: "flatten_questions subj qs = Inr rest" and rows: "rows = r # rest"
    by (auto split: sum.splits)
  from Cons.prems(2) rows have "row = r \<or> row \<in> set rest" by simp
  then show ?case
  proof
    assume "row = r"
    with flatten_question_subject[OF r] show ?thesis by simp
  next
    assume "row \<in> set rest"
    with Cons.IH[OF rest] show ?thesis by simp
  qed
qed

lemma flatten_section_subject:
  assumes "flatten_section sec = Inr rows" "row \<in> set rows"
  shows "\<exists>sid title. dict_get sec ''sectionId'' (JObj []) = Inr sid \<and>
           dict_get sid ''title'' (JStr ''Unknown Section'') = Inr title \<and>
           extract_subject_from_title title = Inr (subject row)"
proof -
  from assms(1) obtain sid title subj qs questions where
    a: "dict_get sec ''sectionId'' (JObj []) = Inr sid" and
    b: "dict_get sid ''title'' (JStr ''Unknown Section'') = Inr title" and
    c: "extract_subject_from_title title = Inr subj" and
    d: "flatten_questions subj questions = Inr rows"
    unfolding flatten_section_def by (elim bindE) blast
  from flatten_questions_subject[OF d assms(2)] a b c show ?thesis by blast
qed

lemma unknown_section_subject:
  "extract_subject_from_title (JStr ''Unknown Section'') = Inr ''Other Subjects''"
  by code_simp

text \<open>
  Claim C5, amended. For every title that is a string of ASCII characters, the subject is
  \<open>Unknown Subject\<close> when the title is empty; otherwise it is decided on the lower-cased
  title by the first rule that applies: the whole word \<open>physics\<close> gives \<open>Physics\<close>, the
  whole word \<open>chemistry\<close> gives \<open>Chemistry\<close>, one of the whole words \<open>math\<close>, \<open>maths\<close>,
  \<open>mathematics\<close> gives \<open>Maths\<close>, and anything else \<open>Other Subjects\<close>. A title that is
  not a string (\<^verbatim>\<open>None\<close> for a null one) gives \<open>Unknown Subject\<close>. In the engine the
  subject of every question of a section is the subject of the title found under
  \<^verbatim>\<open>sectionId\<close>, where a title that is absent is first replaced by
  \<^verbatim>\<open>Unknown Section\<close>: the questions of a section without a title have the subject
  \<open>Other Subjects\<close>.
\<close>

theorem subject_by_whole_word:
  "(is_ascii t \<longrightarrow>
      extract_subject_from_title (JStr t) =
        Inr (if t = [] then ''Unknown Subject''
             else if contains_whole_word ''physics'' (lower t) then ''Physics''
             else if contains_whole_word ''chemistry'' (lower t) then ''Chemistry''
             else if contains_whole_word ''math'' (lower t) \<or>
                     contains_whole_word ''maths'' (lower t) \<or>
                     contains_whole_word ''mathematics'' (lower t) then ''Maths''
             else ''Other Subjects''))
   \<and> extract_subject_from_title JNull = Inr ''Unknown Subject''
   \<and> extract_subject_from_title (JBool b) = Inr ''Unknown Subject''
   \<and> extract_subject_from_title (JNum r) = Inr ''Unknown Subject''
   \<and> extract_subject_from_title (JArr xs) = Inr ''Unknown Subject''
   \<and> extract_subject_from_title (JObj kvs) = Inr ''Unknown Subject''
   \<and> (flatten_section sec = Inr rows \<and> row \<in> set rows \<longrightarrow>
        (\<exists>sid title. dict_get sec ''sectionId'' (JObj []) = Inr sid \<and>
           dict_get sid ''title'' (JStr ''Unknown Section'') = Inr title \<and>
           extract_subject_from_title title = Inr (subject row)))
   \<and> (flatten_section sec = Inr rows \<and> row \<in> set rows \<and>
        dict_get sec ''sectionId'' (JObj []) = Inr sid \<and> dict_lookup sid ''title'' = None \<longrightarrow>
        subject row = ''Other Subjects'')"
proof (intro conjI impI)
  assume "is_ascii t"
  then show "extract_subject_from_title (JStr t) =
        Inr (if t = [] then ''Unknown Subject''
             else if contains_whole_word ''physics'' (lower t) then ''Physics''
             else if contains_whole_word ''chemistry'' (lower t) then ''Chemistry''
             else if contains_whole_word ''math'' (lower t) \<or>
                     contains_whole_word ''maths'' (lower t) \<or>
                     contains_whole_word ''mathematics'' (lower t) then ''Maths''
             else ''Other Subjects'')"
    using search_word_iff[OF _ word_chars_physics, of "lower t"]
          search_word_iff[OF _ word_chars_chemistry, of "lower t"]
          search_math_iff[of "lower t"]
    by (simp add: Let_def)
next
  assume "flatten_section sec = Inr rows \<and> row \<in> set rows"
  then show "\<exists>sid title. dict_get sec ''sectionId'' (JObj []) = Inr sid \<and>
           dict_get sid ''title'' (JStr ''Unknown Section'') = Inr title \<and>
           extract_subject_from_title title = Inr (subject row)"
    using flatten_section_subject by blast
next
  assume a: "flatten_section sec = Inr rows \<and> row \<in> set rows \<and>
        dict_get sec ''sectionId'' (JObj []) = Inr sid \<and> dict_lookup sid ''title'' = None"
  then obtain sid' title where
    s: "dict_get sec ''sectionId'' (JObj []) = Inr sid'" and
    t: "dict_get sid' ''title'' (JStr ''Unknown Section'') = Inr title" and
    e: "extract_subject_from_title title = Inr (subject row)"
    using flatten_section_subject by blast
  from a s have "sid' = sid" by simp
  with t a have "title = JStr ''Unknown Section''" by (cases sid) auto
  with e unknown_section_subject show "subject row = ''Other Subjects''" by simp
qed simp_all

lemma physics_section_2:
  "extract_subject_from_title (JStr ''Physics Section 2'') = Inr ''Physics''"
  by code_simp

lemma flatten_untitled_section:
  "flatten_section untitled_section =
     Inr [\<lparr> subject = ''Other Subjects'', primary_chapter = JStr ''Kinematics'',
            difficulty = ''Easy'', concepts = [], status = ''Correct'',
            time_taken_seconds = JNum 30 \<rparr>]"
  by code_simp

text \<open>
  Extra words do not prevent the match: the title \<^verbatim>\<open>Physics Section 2\<close>. The question
  of the section without a title has the subject \<open>Other Subjects\<close>.
\<close>

theorem subject_by_whole_word_witness:
  "is_ascii ''Physics Section 2'' \<and>
   extract_subject_from_title (JStr ''Physics Section 2'') = Inr ''Physics'' \<and>
   contains_whole_word ''physics'' (lower ''Physics Section 2'') \<and>
   flatten_section untitled_section =
     Inr [\<lparr> subject = ''Other Subjects'', primary_chapter = JStr ''Kinematics'',
            difficulty = ''Easy'', concepts = [], status = ''Correct'',
            time_taken_seconds = JNum 30 \<rparr>] \<and>
   dict_get untitled_section ''sectionId'' (JObj []) = Inr (JObj []) \<and>
   dict_lookup (JObj []) ''title'' = None \<and>
   extract_subject_from_title (JStr ''Unknown Section'') = Inr ''Other Subjects''"
proof -
  let ?row = "\<lparr> subject = ''Other Subjects'', primary_chapter = JStr ''Kinematics'',
            difficulty = ''Easy'', concepts = [], status = ''Correct'',
            time_taken_seconds = JNum 30 \<rparr>"
  note inst = subject_by_whole_word[of "''Physics Section 2''" _ _ _ _ untitled_section
      "[?row]" ?row "JObj []"]
  have a: "is_ascii ''Physics Section 2''" by simp
  from inst a physics_section_2
  have w: "contains_whole_word ''physics'' (lower ''Physics Section 2'')"
    by (simp split: if_splits)
  have g: "dict_get untitled_section ''sectionId'' (JObj []) = Inr (JObj [])"
    by (simp add: untitled_section_def)
  from inst flatten_untitled_section obtain sid title where
    "dict_get untitled_section ''sectionId'' (JObj []) = Inr sid"
    "dict_get sid ''title'' (JStr ''Unknown Section'') = Inr title"
    "extract_subject_from_title title = Inr (subject ?row)"
    by auto
  with g have "extract_subject_from_title (JStr ''Unknown Section'') = Inr ''Other Subjects''"
    by simp
  with a physics_section_2 w flatten_untitled_section g show ?thesis by simp
qed

lemma not_whole_word_empty: "w \<noteq> [] \<Longrightarrow> \<not> contains_whole_word w []"
  by (simp add: contains_whole_word_def)

lemma untitled_section_subjects:
  "map_sum id (map subject) (flatten_section untitled_section) = Inr [''Other Subjects'']"
  by (simp add: flatten_untitled_section)

text \<open>
  Claim C5 as stated fails twice. The empty title is a string that contains none of the
  words, and its subject is not \<open>Other Subjects\<close>. The title of the sample section is
  absent, and the subject of its question is \<open>Other Subjects\<close>, not \<open>Unknown Subject\<close>.
\<close>

theorem empty_title_counterexample:
  "\<not> contains_whole_word ''physics'' (lower '''') \<and>
   \<not> contains_whole_word ''chemistry'' (lower '''') \<and>
   \<not> contains_whole_word ''math'' (lower '''') \<and>
   \<not> contains_whole_word ''maths'' (lower '''') \<and>
   \<not> contains_whole_word ''mathematics'' (lower '''') \<and>
   extract_subject_from_title (JStr '''') \<noteq> Inr ''Other Subjects'' \<and>
   dict_lookup untitled_section ''sectionId'' = Some (JObj []) \<and>
   dict_lookup (JObj []) ''title'' = None \<and>
   map_sum id (map subject) (flatten_section untitled_section) = Inr [''Other Subjects''] \<and>
   ''Other Subjects'' \<noteq> ''Unknown Subject''"
proof -
  have "dict_lookup untitled_section ''sectionId'' = Some (JObj [])"
    by (simp add: untitled_section_def)
  then show ?thesis
    by (simp add: lower_def not_whole_word_empty untitled_section_subjects)
qed

section \<open>The status and the difficulty of a flattened question\<close>

lemma dict_get_Inr:
  "dict_get d k dflt = Inr v \<Longrightarrow>
     \<exists>kvs. d = JObj kvs \<and> v = (case map_of kvs k of None \<Rightarrow> dflt | Some x \<Rightarrow> x)"
  by (cases d) auto

lemma any_option_correct_iff:
  "any_option_correct opts = Inr b \<Longrightarrow>
     b \<longleftrightarrow> (\<exists>opt\<in>set opts. \<exists>v. dict_lookup opt ''isCorrect'' = Some v \<and> truthy v)"
proof (induction opts)
  case Nil
  then show ?case by simp
next
  case (Cons opt opts)
  from Cons.prems obtain v where g: "dict_get opt ''isCorrect'' JNull = Inr v"
    by (auto split: sum.splits)
  then obtain kvs where o: "opt = JObj kvs"
    and v: "v = (case map_of kvs ''isCorrect'' of None \<Rightarrow> JNull | Some x \<Rightarrow> x)"
    using dict_get_Inr by blast
  show ?case
  proof (cases "truthy v")
    case True
    with Cons.prems g have "b" by simp
    moreover from True v o have "\<exists>x. dict_lookup opt ''isCorrect'' = Some x \<and> truthy x"
      by (cases "map_of kvs ''isCorrect''") auto
    ultimately show ?thesis by auto
  next
    case False
    with Cons.prems g have r: "any_option_correct opts = Inr b" by simp
    from False v o have "\<not> (\<exists>x. dict_lookup opt ''isCorrect'' = Some x \<and> truthy x)"
      by (cases "map_of kvs ''isCorrect''") auto
    with Cons.IH[OF r] show ?thesis by auto
  qed
qed

lemma is_marked_correct_iff:
  assumes "is_marked_correct_by_system q = Inr b"
  shows "b \<longleftrightarrow> flagged_correct q"
proof -
  from assms obtain mo where mo: "dict_get q ''markedOptions'' JNull = Inr mo"
    by (auto simp: is_marked_correct_by_system_def split: sum.splits)
  then obtain kvs where q: "q = JObj kvs"
    and mov: "mo = (case map_of kvs ''markedOptions'' of None \<Rightarrow> JNull | Some x \<Rightarrow> x)"
    using dict_get_Inr by blast
  define marked_res where "marked_res =
    (if truthy mo \<and> isinstance_list mo
     then (case mo of JArr opts \<Rightarrow> any_option_correct opts | _ \<Rightarrow> Inr False)
     else Inr False)"
  from assms mo obtain marked where m: "marked_res = Inr marked"
    by (auto simp: is_marked_correct_by_system_def marked_res_def split: sum.splits)
  from assms mo m obtain iv c where iv: "dict_get q ''inputValue'' (JObj []) = Inr iv"
    and c: "dict_get iv ''isCorrect'' JNull = Inr c"
    and b: "b = (if truthy c then True else marked)"
    by (auto simp: is_marked_correct_by_system_def marked_res_def split: sum.splits)
  have markedI: "marked \<longleftrightarrow> (\<exists>opts opt v. dict_lookup q ''markedOptions'' = Some (JArr opts) \<and>
        opt \<in> set opts \<and> dict_lookup opt ''isCorrect'' = Some v \<and> truthy v)"
  proof (cases mo)
    case (JArr opts)
    have look: "dict_lookup q ''markedOptions'' = Some (JArr opts)"
      using mov JArr q by (cases "map_of kvs ''markedOptions''") auto
    show ?thesis
    proof (cases "opts = []")
      case True
      with m JArr have "\<not> marked" by (simp add: marked_res_def)
      with look True show ?thesis by auto
    next
      case False
      with m JArr have "any_option_correct opts = Inr marked" by (simp add: marked_res_def)
      from any_option_correct_iff[OF this] look show ?thesis by auto
    qed
  next
    case JNull
    with m have "\<not> marked" by (simp add: marked_res_def)
    moreover have "\<forall>opts. dict_lookup q ''markedOptions'' \<noteq> Some (JArr opts)"
      using mov JNull q by (cases "map_of kvs ''markedOptions''") auto
    ultimately show ?thesis by blast
  next
    case (JBool x)
    with m have "\<not> marked" by (simp add: marked_res_def)
    moreover have "\<forall>opts. dict_lookup q ''markedOptions'' \<noteq> Some (JArr opts)"
      using mov JBool q by (cases "map_of kvs ''markedOptions''") auto
    ultimately show ?thesis by blast
  next
    case (JNum x)
    with m have "\<not> marked" by (simp add: marked_res_def)
    moreover have "\<forall>opts. dict_lookup q ''markedOptions'' \<noteq> Some (JArr opts)"
      using mov JNum q by (cases "map_of kvs ''markedOptions''") auto
    ultimately show ?thesis by blast
  next
    case (JStr x)
    with m have "\<not> marked" by (simp add: marked_res_def)
    moreover have "\<forall>opts. dict_lookup q ''markedOptions'' \<noteq> Some (JArr opts)"
      using mov JStr q by (cases "map_of kvs ''markedOptions''") auto
    ultimately show ?thesis by blast
  next
    case (JObj x)
    with m have "\<not> marked" by (simp add: marked_res_def)
    moreover have "\<forall>opts. dict_lookup q ''markedOptions'' \<noteq> Some (JArr opts)"
      using mov JObj q by (cases "map_of kvs ''markedOptions''") auto
    ultimately show ?thesis by blast
  qed
  have inputI: "truthy c \<longleftrightarrow> (\<exists>iv v. dict_lookup q ''inputValue'' = Some iv \<and>
        dict_lookup iv ''isCorrect'' = Some v \<and> truthy v)"
  proof (cases "map_of kvs ''inputValue''")
    case None
    with iv q have "iv = JObj []" by simp
    with c have "\<not> truthy c" by auto
    with None q show ?thesis by simp
  next
    case (Some x)
    with iv q have ivx: "iv = x" by simp
    from c obtain kvs' where x: "iv = JObj kvs'"
      and cv: "c = (case map_of kvs' ''isCorrect'' of None \<Rightarrow> JNull | Some y \<Rightarrow> y)"
      using dict_get_Inr by blast
    from Some q ivx x cv show ?thesis
      by (cases "map_of kvs' ''isCorrect''") auto
  qed
  from b markedI inputI show ?thesis
    unfolding flagged_correct_def by auto
qed

lemma flatten_question_status:
  assumes "flatten_question subj q = Inr row"
  shows "\<exists>marked st s. is_marked_correct_by_system q = Inr marked \<and>
           dict_get q ''status'' (JStr ''notAnswered'') = Inr st \<and> py_lower st = Inr s \<and>
           status row = (if s = ''answered''
                          then (if marked then ''Correct'' else ''Incorrect'')
                          else ''Unattempted'')"
  using assms unfolding flatten_question_def
  by (elim bindE) auto

lemma answered_iff:
  assumes "dict_get q ''status'' (JStr ''notAnswered'') = Inr st" "py_lower st = Inr s"
  shows "s = ''answered'' \<longleftrightarrow> source_status_answered q"
proof -
  from assms(1) obtain kvs where q: "q = JObj kvs"
    and st: "st = (case map_of kvs ''status'' of None \<Rightarrow> JStr ''notAnswered'' | Some x \<Rightarrow> x)"
    using dict_get_Inr by blast
  from assms(2) obtain t where t: "st = JStr t" "s = lower t" by (cases st) auto
  show ?thesis
  proof (cases "map_of kvs ''status''")
    case None
    with st t have "s = lower ''notAnswered''" by simp
    then have "s \<noteq> ''answered''" by (simp add: lower_def lower_char_def)
    with None q show ?thesis by (simp add: source_status_answered_def)
  next
    case (Some x)
    with st t q show ?thesis by (auto simp: source_status_answered_def)
  qed
qed

text \<open>
  Claim C1, amended. Every flattened question has exactly one of the three statuses. It is
  \<open>Unattempted\<close> unless the \<^verbatim>\<open>status\<close> field of the attempt, in lower case, is
  \<^verbatim>\<open>answered\<close>; then it is \<open>Correct\<close> when a marked option or the input value is
  flagged correct, and \<open>Incorrect\<close> otherwise (in particular when nothing is flagged).
\<close>

theorem question_status_derivation:
  assumes "flatten_question subj q = Inr row"
  shows "status row \<in> {''Correct'', ''Incorrect'', ''Unattempted''} \<and>
         (status row = ''Unattempted'' \<longleftrightarrow> \<not> source_status_answered q) \<and>
         (status row = ''Correct'' \<longleftrightarrow> source_status_answered q \<and> flagged_correct q) \<and>
         (status row = ''Incorrect'' \<longleftrightarrow> source_status_answered q \<and> \<not> flagged_correct q)"
proof -
  from flatten_question_status[OF assms] obtain marked st s where
    m: "is_marked_correct_by_system q = Inr marked" and
    g: "dict_get q ''status'' (JStr ''notAnswered'') = Inr st" and
    l: "py_lower st = Inr s" and
    r: "status row = (if s = ''answered''
                          then (if marked then ''Correct'' else ''Incorrect'')
                          else ''Unattempted'')"
    by blast
  from is_marked_correct_iff[OF m] answered_iff[OF g l] r show ?thesis
    by auto
qed

lemma flatten_scenario_question:
  "flatten_question ''Physics'' scenario_question =
     Inr \<lparr> subject = ''Physics'', primary_chapter = JStr ''Kinematics'', difficulty = ''Easy'',
           concepts = [], status = ''Correct'', time_taken_seconds = JNum 30 \<rparr>"
  by code_simp

text \<open>
  The question of the scenario: answered, with a marked option flagged correct.
\<close>

theorem question_status_derivation_witness:
  "flatten_question ''Physics'' scenario_question =
     Inr \<lparr> subject = ''Physics'', primary_chapter = JStr ''Kinematics'', difficulty = ''Easy'',
           concepts = [], status = ''Correct'', time_taken_seconds = JNum 30 \<rparr> \<and>
   source_status_answered scenario_question \<and> flagged_correct scenario_question"
  using question_status_derivation[OF flatten_scenario_question] flatten_scenario_question
  by simp

text \<open>
  Claim C1 as stated fails: the status field \<^verbatim>\<open>ANSWERED\<close> is not the string
  \<^verbatim>\<open>answered\<close>, and the flattened question is \<open>Correct\<close>, not \<open>Unattempted\<close>.
\<close>

theorem capitals_status_counterexample:
  "dict_lookup capitals_question ''status'' = Some (JStr ''ANSWERED'') \<and>
   ''ANSWERED'' \<noteq> ''answered'' \<and>
   map_sum id status (flatten_question ''Physics'' capitals_question) = Inr ''Correct''"
  by code_simp

lemma flatten_question_difficulty:
  assumes "flatten_question subj q = Inr row"
  shows "\<exists>d level. dict_get q ''questionId'' (JObj []) = Inr d \<and>
           dict_get d ''level'' (JStr ''Unknown Difficulty'') = Inr level \<and>
           py_capitalize level = Inr (difficulty row)"
  using assms unfolding flatten_question_def
  by (elim bindE) auto

text \<open>
  Claim C3, amended. For every flattened question whose level is present and a string of
  ASCII characters, the difficulty is the level with its first character in upper case
  and every other character in lower case.
\<close>

theorem difficulty_capitalized:
  assumes "flatten_question subj q = Inr row"
    and "dict_lookup q ''questionId'' = Some d"
    and "dict_lookup d ''level'' = Some (JStr l)"
    and "is_ascii l"
  shows "difficulty row = (case l of [] \<Rightarrow> [] | c # cs \<Rightarrow> upper_char c # map lower_char cs)"
proof -
  from flatten_question_difficulty[OF assms(1)] obtain d' level where
    a: "dict_get q ''questionId'' (JObj []) = Inr d'" and
    b: "dict_get d' ''level'' (JStr ''Unknown Difficulty'') = Inr level" and
    c: "py_capitalize level = Inr (difficulty row)"
    by blast
  from a assms(2) have "d' = d" by (cases q) auto
  with b assms(3) have "level = JStr l" by (cases d) auto
  with c assms(4) have "difficulty row = capitalize l" by simp
  then show ?thesis by (cases l) simp_all
qed

lemma flatten_medium_question:
  "flatten_question ''Physics'' medium_question =
     Inr \<lparr> subject = ''Physics'', primary_chapter = JStr ''Unknown Chapter'',
           difficulty = ''Medium'', concepts = [], status = ''Unattempted'',
           time_taken_seconds = JNum 0 \<rparr>"
  by code_simp

text \<open>
  The level \<^verbatim>\<open>MEDIUM\<close> becomes the difficulty \<^verbatim>\<open>Medium\<close>.
\<close>

theorem difficulty_capitalized_witness:
  "flatten_question ''Physics'' medium_question =
     Inr \<lparr> subject = ''Physics'', primary_chapter = JStr ''Unknown Chapter'',
           difficulty = ''Medium'', concepts = [], status = ''Unattempted'',
           time_taken_seconds = JNum 0 \<rparr> \<and>
   dict_lookup medium_question ''questionId'' = Some (JObj [(''level'', JStr ''MEDIUM'')]) \<and>
   dict_lookup (JObj [(''level'', JStr ''MEDIUM'')]) ''level'' = Some (JStr ''MEDIUM'') \<and>
   is_ascii ''MEDIUM'' \<and>
   ''Medium'' = upper_char CHR ''M'' # map lower_char ''EDIUM''"
proof -
  have a: "dict_lookup medium_question ''questionId'' = Some (JObj [(''level'', JStr ''MEDIUM'')])"
    by (simp add: medium_question_def)
  have b: "dict_lookup (JObj [(''level'', JStr ''MEDIUM'')]) ''level'' = Some (JStr ''MEDIUM'')"
    by simp
  have c: "is_ascii ''MEDIUM''" by simp
  from difficulty_capitalized[OF flatten_medium_question a b c]
  have "''Medium'' = upper_char CHR ''M'' # map lower_char ''EDIUM''" by simp
  with flatten_medium_question a b c show ?thesis by simp
qed

text \<open>
  Claim C3 as stated fails: the characters after the first do not stay as they are, and
  the level \<^verbatim>\<open>MEDIUM\<close> does not stay \<^verbatim>\<open>MEDIUM\<close>.
\<close>

theorem medium_level_counterexample:
  "dict_lookup medium_question ''questionId'' = Some (JObj [(''level'', JStr ''MEDIUM'')]) \<and>
   map_sum id difficulty (flatten_question ''Physics'' medium_question) = Inr ''Medium'' \<and>
   map_sum id difficulty (flatten_question ''Physics'' medium_question) \<noteq> Inr ''MEDIUM''"
proof -
  have a: "dict_lookup medium_question ''questionId'' = Some (JObj [(''level'', JStr ''MEDIUM'')])"
    by (simp add: medium_question_def)
  have b: "map_sum id difficulty (flatten_question ''Physics'' medium_question) = Inr ''Medium''"
    by (simp add: flatten_medium_question)
  from a b show ?thesis by simp
qed

text \<open>
  The comparison of the lower-cased status with \<^verbatim>\<open>answered\<close> holds of strings of ASCII
  characters only, in the model as in Python.
\<close>

lemma lower_char_ascii: "\<not> digit7 (lower_char c) \<Longrightarrow> \<not> digit7 c"
  by (auto simp: lower_char_def split: if_splits)

lemma lower_ascii: "is_ascii (lower s) \<Longrightarrow> is_ascii s"
  by (induction s) (auto simp: lower_def dest: lower_char_ascii)

lemma lower_answered_ascii: "lower s = ''answered'' \<Longrightarrow> is_ascii s"
proof -
  assume "lower s = ''answered''"
  then have "is_ascii (lower s)" by simp
  then show ?thesis by (rule lower_ascii)
qed

section \<open>The result as a function of the frame\<close>





subsection \<open>One row of the frame for each question of the record\<close>










subsection \<open>Rounding\<close>


subsection \<open>The aggregate of the concept loops\<close>


















subsection \<open>The summaries of the groups\<close>






lemma group_loop_lookup:
  "group_loop key sentinel df ks acc = Inr m \<Longrightarrow>
     (c \<in> set ks \<and> c \<noteq> sentinel \<longrightarrow>
        (\<exists>g. m c = Some g \<and> group_stats (filter (\<lambda>r. key r = c) df) = Inr g)) \<and>
     (\<not> (c \<in> set ks \<and> c \<noteq> sentinel) \<longrightarrow> m c = acc c)"
proof (induction ks arbitrary: acc)
  case Nil
  then show ?case by simp
next
  case (Cons k ks)
  show ?case
  proof (cases "k = sentinel")
    case True
    with Cons.prems have "group_loop key sentinel df ks acc = Inr m" by simp
    from Cons.IH[OF this] True show ?thesis by auto
  next
    case False
    with Cons.prems obtain gk where
      e: "group_stats (filter (\<lambda>r. key r = k) df) = Inr gk" and
      l: "group_loop key sentinel df ks (acc(k \<mapsto> gk)) = Inr m"
      by (auto split: sum.splits)
    from Cons.IH[OF l] False e show ?thesis by (auto split: if_splits)
  qed
qed


lemma sentinel_has_no_group:
  assumes "(if df \<noteq> [] then group_loop key sentinel df (remdups (map key df)) Map.empty
            else Inr Map.empty) = Inr m"
  shows "m sentinel = None"
proof (cases "df = []")
  case True
  with assms show ?thesis by auto
next
  case False
  with assms have "group_loop key sentinel df (remdups (map key df)) Map.empty = Inr m" by simp
  from group_loop_lookup[OF this, of sentinel] show ?thesis by simp
qed




subsection \<open>The concepts of a row\<close>






subsection \<open>The sample records\<close>




subsection \<open>Concepts\<close>








subsection \<open>Time against accuracy\<close>







subsection \<open>A missing time is a time of zero\<close>









section \<open>Records on which the engine ends in an error\<close>

lemma key_error_cases:
  "(case x of Inl e \<Rightarrow> e = KeyError | Inr r \<Rightarrow> False) \<Longrightarrow> x = Inl KeyError"
  by (cases x) auto

text \<open>
  Claim C2, at the record of the first scenario of the specification: the loop over the
  subjects builds the summary of Physics that the scenario expects, then reads the status
  column of the empty frame that stands for Chemistry, and the engine ends in
  \<open>KeyError\<close> instead of a result.
\<close>

theorem missing_subject_key_error:
  "process_student_data scenario_record = Inl KeyError \<and>
   subject_entry scenario_frame ''Physics'' =
     Inr \<lparr> total_questions = 25, correct_answers = 1, accuracy_percent = 4,
            average_time_seconds = 30 \<rparr> \<and>
   subject_entry scenario_frame ''Chemistry'' = Inl KeyError"
proof -
  have "(case process_student_data scenario_record of
           Inl e \<Rightarrow> e = KeyError | Inr r \<Rightarrow> False)"
    by code_simp
  then have a: "process_student_data scenario_record = Inl KeyError"
    by (rule key_error_cases)
  have b: "subject_entry scenario_frame ''Physics'' =
     Inr \<lparr> total_questions = 25, correct_answers = 1, accuracy_percent = 4,
            average_time_seconds = 30 \<rparr>"
    by code_simp
  have c: "subject_entry scenario_frame ''Chemistry'' = Inl KeyError"
    by code_simp
  from a b c show ?thesis by simp
qed

text \<open>
  Claim C6, at a non-empty record whose section has no \<^verbatim>\<open>questions\<close> field: the
  engine ends in \<open>KeyError\<close>.
\<close>

theorem no_questions_key_error:
  "truthy no_questions_record \<and>
   process_student_data no_questions_record = Inl KeyError"
proof -
  have "(case process_student_data no_questions_record of
           Inl e \<Rightarrow> e = KeyError | Inr r \<Rightarrow> False)"
    by code_simp
  then have a: "process_student_data no_questions_record = Inl KeyError"
    by (rule key_error_cases)
  have b: "truthy no_questions_record" by code_simp
  from a b show ?thesis by simp
qed

text \<open>
  Claim C7, at a record with an empty list of sections: no question is flattened, and the
  engine ends in \<open>KeyError\<close> when the overall summary reads the status column, before
  any accuracy is computed.
\<close>

theorem empty_sections_key_error:
  "process_student_data empty_sections_record = Inl KeyError \<and>
   overall_summary_of empty_sections_record (JObj []) [] = Inl KeyError"
proof -
  have "(case process_student_data empty_sections_record of
           Inl e \<Rightarrow> e = KeyError | Inr r \<Rightarrow> False)"
    by code_simp
  then have a: "process_student_data empty_sections_record = Inl KeyError"
    by (rule key_error_cases)
  have b: "overall_summary_of empty_sections_record (JObj []) [] = Inl KeyError"
    by (simp add: overall_summary_of_def column_def)
  from a b show ?thesis by simp
qed

text \<open>
  Claim C4, at the record with the three subjects: the two questions without a level form
  the group \<^verbatim>\<open>Unknown difficulty\<close> of the difficulty map (the question without a
  chapter forms no group of the chapter map).
\<close>

theorem unknown_difficulty_group:
  "(case process_student_data three_subject_record of
      Inr (Some r) \<Rightarrow>
        map_option total_questions (difficulty_performance r ''Unknown difficulty'') = Some 2 \<and>
        map_option total_questions (chapter_performance r ''Unknown Chapter'') = None
    | _ \<Rightarrow> False)"
  by code_simp

end
